theory Spec2Isabelle
  imports Main
begin

section \<open>JavaScript values\<close>

text \<open>
  Request bodies, handler arguments and handler results are JavaScript values. A body parsed
  by \<open>express.json()\<close> is JSON; \<open>JUndefined\<close> is the value of a field that is not there
  (and of \<open>undefined\<close> stored in an object literal such as \<open>{ status, data }\<close> when
  \<open>data\<close> is missing). \<open>JNum\<close> holds the integer-valued numbers; fractions are not modelled.
  An object is its list of own properties; the first binding of a name is the one read.
\<close>

datatype jsval =
    JUndefined
  | JNull
  | JBool bool
  | JNum int
  | JStr string
  | JArr "jsval list"
  | JObj "(string \<times> jsval) list"

text \<open>What a \<open>throw\<close> carries: the engine's TypeError, or whatever a library call threw.\<close>

datatype error = TypeError | Thrown string

text \<open>The values that pass an \<open>if\<close>; \<open>js_not v\<close> is \<open>!v\<close>.\<close>

fun truthy :: "jsval \<Rightarrow> bool" where
  "truthy JUndefined = False"
| "truthy JNull = False"
| "truthy (JBool b) = b"
| "truthy (JNum n) = (n \<noteq> 0)"
| "truthy (JStr s) = (s \<noteq> [])"
| "truthy (JArr xs) = True"
| "truthy (JObj kvs) = True"

definition js_not :: "jsval \<Rightarrow> bool" where
  "js_not v = (\<not> truthy v)"

text \<open>
  \<open>v.k\<close> and the destructuring \<open>const { k } = v\<close>, for the names this program reads
  (\<open>tasks\<close>, \<open>taskType\<close>, \<open>payload\<close>, \<open>action\<close>, \<open>data\<close>, \<open>goal\<close>, \<open>query\<close>,
  \<open>id\<close>, \<open>extract\<close>): none of them is a property of a prototype, so the read gives the own
  property or \<open>undefined\<close>. Reading a property of \<open>undefined\<close> or \<open>null\<close> throws.
\<close>

fun getField :: "jsval \<Rightarrow> string \<Rightarrow> error + jsval" where
  "getField JUndefined k = Inl TypeError"
| "getField JNull k = Inl TypeError"
| "getField (JObj kvs) k = Inr (case map_of kvs k of None \<Rightarrow> JUndefined | Some v \<Rightarrow> v)"
| "getField v k = Inr JUndefined"

text \<open>
  Decimal digits of a number, as \<open>Number.prototype.toString\<close> prints an integer of
  magnitude below \<open>10\<^sup>2\<^sup>1\<close>. From there on JavaScript prints an exponent form, which is not
  modelled: \<open>JNum\<close> stands for the integers below that bound.
\<close>

fun digits :: "nat \<Rightarrow> string" where
  "digits n = (if n < 10 then [char_of (48 + n)] else digits (n div 10) @ [char_of (48 + n mod 10)])"

declare digits.simps [simp del]

definition show_int :: "int \<Rightarrow> string" where
  "show_int i = (if i < 0 then CHR ''-'' # digits (nat (- i)) else digits (nat i))"

text \<open>\<open>Array.prototype.join\<close> with a comma; the first element that throws ends it.\<close>

fun join_comma :: "(error + string) list \<Rightarrow> error + string" where
  "join_comma [] = Inr []"
| "join_comma [p] = p"
| "join_comma (p # q # ps) =
     (case p of Inl e \<Rightarrow> Inl e
      | Inr s \<Rightarrow> (case join_comma (q # ps) of Inl e \<Rightarrow> Inl e | Inr r \<Rightarrow> Inr (s @ '','' @ r)))"

text \<open>
  The conversion to a string that a template literal \<open>`${v}`\<close> and a computed property key
  \<open>o[v]\<close> apply. An array joins its elements, \<open>null\<close> and \<open>undefined\<close> among them as the
  empty string. A parsed object prints as \<open>[object Object]\<close>, unless it has an own property
  \<open>toString\<close>: that one is data, not a function, and the conversion throws.
\<close>

fun js_toString :: "jsval \<Rightarrow> error + string" where
  "js_toString JUndefined = Inr ''undefined''"
| "js_toString JNull = Inr ''null''"
| "js_toString (JBool b) = Inr (if b then ''true'' else ''false'')"
| "js_toString (JNum n) = Inr (show_int n)"
| "js_toString (JStr s) = Inr s"
| "js_toString (JArr xs) =
     join_comma (map (\<lambda>x. if x = JUndefined \<or> x = JNull then Inr [] else js_toString x) xs)"
| "js_toString (JObj kvs) =
     (if ''toString'' \<in> fst ` set kvs then Inl TypeError else Inr ''[object Object]'')"

section \<open>Throwing\<close>

text \<open>
  A computation that may throw is a sum, \<open>Inl\<close> the thrown value. \<open>bindE\<close> runs the
  next statement when the first did not throw. \<open>bindC\<close> does the same where the rest of
  the block may call handlers: a throw before any call leaves no call recorded.
\<close>

definition bindE :: "error + 'a \<Rightarrow> ('a \<Rightarrow> error + 'b) \<Rightarrow> error + 'b" where
  "bindE m f = (case m of Inl e \<Rightarrow> Inl e | Inr v \<Rightarrow> f v)"

definition bindC :: "error + 'a \<Rightarrow> ('a \<Rightarrow> (error + 'b) \<times> 'c list) \<Rightarrow> (error + 'b) \<times> 'c list" where
  "bindC m f = (case m of Inl e \<Rightarrow> (Inl e, []) | Inr v \<Rightarrow> f v)"

section \<open>Collaborators outside the repository's sources\<close>

text \<open>
  \<open>verifyToken\<close> (\<open>utils/jwt\<close>) returns the token's claims or throws;
  \<open>encodeURIComponent\<close> throws on a malformed string; \<open>axios.get\<close> resolves to a response
  object or rejects. They are parameters of the model.
\<close>

record env =
  verifyToken :: "string \<Rightarrow> error + jsval"
  encodeURIComponent :: "string \<Rightarrow> error + string"
  axios_get :: "string \<Rightarrow> error + jsval"

section \<open>The agents\<close>

datatype agent = ResearchAgent | PlannerAgent | ExecutionAgent

text \<open>\<open>researchAgent.handleTask\<close>\<close>

definition researchAgent_handleTask :: "env \<Rightarrow> jsval \<Rightarrow> error + jsval" where
  "researchAgent_handleTask ev task =
     bindE (getField task ''payload'') (\<lambda>payload.
     bindE (getField payload ''query'') (\<lambda>query.
     bindE (js_toString query) (\<lambda>q.
     bindE (encodeURIComponent ev q) (\<lambda>enc.
     bindE (axios_get ev (''https://en.wikipedia.org/api/rest_v1/page/summary/'' @ enc)) (\<lambda>response.
     bindE (getField response ''data'') (\<lambda>data.
     bindE (getField data ''extract'') (\<lambda>extract.
     Inr (JObj [(''summary'', extract)]))))))))"

text \<open>\<open>plannerAgent.handleTask\<close>\<close>

definition plannerAgent_handleTask :: "jsval \<Rightarrow> error + jsval" where
  "plannerAgent_handleTask task =
     bindE (getField task ''payload'') (\<lambda>payload.
     bindE (getField payload ''goal'') (\<lambda>goal.
     bindE (js_toString goal) (\<lambda>g.
     Inr (JObj [(''steps'', JArr
       [JStr (''Define the goal: '' @ g),
        JStr ''Research requirements'',
        JStr ''List resources'',
        JStr ''Create timeline'',
        JStr ''Assign tasks''])]))))"

text \<open>\<open>executionAgent.handleTask\<close>; \<open>===\<close> holds of a string and nothing else.\<close>

definition executionAgent_handleTask :: "jsval \<Rightarrow> error + jsval" where
  "executionAgent_handleTask task =
     bindE (getField task ''payload'') (\<lambda>payload.
     bindE (getField payload ''action'') (\<lambda>action.
     bindE (getField payload ''data'') (\<lambda>data.
     if action = JStr ''create'' then Inr (JObj [(''status'', JStr ''created''), (''data'', data)])
     else if action = JStr ''read'' then Inr (JObj [(''status'', JStr ''read''), (''data'', data)])
     else if action = JStr ''update'' then Inr (JObj [(''status'', JStr ''updated''), (''data'', data)])
     else if action = JStr ''delete'' then Inr (JObj [(''status'', JStr ''deleted''), (''data'', data)])
     else Inr (JObj [(''error'', JStr ''Unknown action'')]))))"

fun handleTask :: "env \<Rightarrow> agent \<Rightarrow> jsval \<Rightarrow> error + jsval" where
  "handleTask ev ResearchAgent task = researchAgent_handleTask ev task"
| "handleTask ev PlannerAgent task = plannerAgent_handleTask task"
| "handleTask ev ExecutionAgent task = executionAgent_handleTask task"

section \<open>The registry\<close>

text \<open>The object literal \<open>agents\<close> of \<open>agents/index.ts\<close>: its own properties.\<close>

definition agents :: "(string \<times> agent) list" where
  "agents = [(''research'', ResearchAgent), (''planner'', PlannerAgent), (''execution'', ExecutionAgent)]"

text \<open>
  \<open>agents\<close> is a plain object, so a read \<open>agents[k]\<close> that finds no own property goes on to
  \<open>Object.prototype\<close>, whose members are these. Each is a function or an object: truthy, and
  without a \<open>handleTask\<close>.
\<close>

definition object_prototype_keys :: "string list" where
  "object_prototype_keys =
     [''constructor'', ''__defineGetter__'', ''__defineSetter__'', ''hasOwnProperty'',
      ''__lookupGetter__'', ''__lookupSetter__'', ''isPrototypeOf'', ''propertyIsEnumerable'',
      ''toString'', ''valueOf'', ''__proto__'', ''toLocaleString'']"

datatype slot = Handler agent | Inherited | Missing

definition agents_get :: "string \<Rightarrow> slot" where
  "agents_get k =
     (case map_of agents k of Some a \<Rightarrow> Handler a
      | None \<Rightarrow> if k \<in> set object_prototype_keys then Inherited else Missing)"

text \<open>\<open>agents[v]\<close> for any value \<open>v\<close>: the key is \<open>v\<close> converted to a string.\<close>

definition agents_index :: "jsval \<Rightarrow> error + slot" where
  "agents_index v = bindE (js_toString v) (\<lambda>k. Inr (agents_get k))"

text \<open>
  \<open>agents[k].handleTask(task)\<close> once \<open>agents[k]\<close> was seen truthy. The calls that reach a
  handler are recorded, in order, with the argument each received. A member of
  \<open>Object.prototype\<close> has no \<open>handleTask\<close>: calling \<open>undefined\<close> throws and reaches no handler.
\<close>

type_synonym invocation = "agent \<times> jsval"

fun invoke :: "env \<Rightarrow> slot \<Rightarrow> jsval \<Rightarrow> (error + jsval) \<times> invocation list" where
  "invoke ev (Handler a) task = (handleTask ev a task, [(a, task)])"
| "invoke ev Inherited task = (Inl TypeError, [])"
| "invoke ev Missing task = (Inl TypeError, [])"

section \<open>POST /api/agent/task\<close>

record request =
  authorization :: "string option"
  body :: jsval

text \<open>
  What a route does with a request: it sends a response (status, and the value given to
  \<open>res.json\<close>), or its promise rejects and the route has sent nothing.
\<close>

datatype reply = Responded nat jsval | Unhandled error

text \<open>\<open>s.split(' ')\<close>\<close>

fun split_space :: "string \<Rightarrow> string list" where
  "split_space [] = [[]]"
| "split_space (c # cs) =
     (if c = CHR '' '' then [] # split_space cs
      else (case split_space cs of [] \<Rightarrow> [[c]] | p # ps \<Rightarrow> (c # p) # ps))"

text \<open>\<open>req.headers.authorization?.split(' ')[1]\<close>; \<open>None\<close> is \<open>undefined\<close>.\<close>

definition bearer_token :: "string option \<Rightarrow> string option" where
  "bearer_token h =
     (case h of None \<Rightarrow> None
      | Some s \<Rightarrow> (case split_space s of _ # t # _ \<Rightarrow> Some t | _ \<Rightarrow> None))"

text \<open>
  The body of the \<open>try\<close> block of \<open>routes/agent.ts\<close>, statement by statement:
  \<open>verifyToken(token)\<close>, the destructuring of \<open>req.body\<close>, the guard
  \<open>!taskType || !payload\<close>, the guard \<open>!agents[taskType]\<close>, the call of \<open>handleTask\<close> on
  the object literal \<open>{ userId: user.id, taskType, payload }\<close> (its fields are evaluated
  before the call is made) and \<open>res.json({ agent: taskType, result })\<close>, whose status is 200.
  \<open>Inl\<close> is a throw, which the \<open>catch\<close> receives.
\<close>

definition task_try :: "env \<Rightarrow> string \<Rightarrow> jsval \<Rightarrow> (error + reply) \<times> invocation list" where
  "task_try ev token b =
     bindC (verifyToken ev token) (\<lambda>user.
     bindC (getField b ''taskType'') (\<lambda>taskType.
     bindC (getField b ''payload'') (\<lambda>payload.
     if js_not taskType \<or> js_not payload
     then (Inr (Responded 400 (JObj [(''error'', JStr ''Missing fields'')])), [])
     else
     bindC (agents_index taskType) (\<lambda>sl.
     if sl = Missing
     then (Inr (Responded 400 (JObj [(''error'', JStr ''Unknown agent'')])), [])
     else
     bindC (getField user ''id'') (\<lambda>uid.
     (case invoke ev sl (JObj [(''userId'', uid), (''taskType'', taskType), (''payload'', payload)]) of
        (Inl e, calls) \<Rightarrow> (Inl e, calls)
      | (Inr result, calls) \<Rightarrow>
          (Inr (Responded 200 (JObj [(''agent'', taskType), (''result'', result)])), calls)))))))"

text \<open>
  The route: the token taken from the header, the guard \<open>!token\<close> (true of \<open>undefined\<close> and
  of the empty string), then the \<open>try\<close> block and its \<open>catch\<close>, which answers any throw
  with 401.
\<close>

definition agent_task :: "env \<Rightarrow> request \<Rightarrow> reply \<times> invocation list" where
  "agent_task ev req =
     (case bearer_token (authorization req) of
        None \<Rightarrow> (Responded 401 (JObj [(''error'', JStr ''No token'')]), [])
      | Some token \<Rightarrow>
          if token = [] then (Responded 401 (JObj [(''error'', JStr ''No token'')]), [])
          else (case task_try ev token (body req) of
                  (Inl e, calls) \<Rightarrow> (Responded 401 (JObj [(''error'', JStr ''Invalid token'')]), calls)
                | (Inr r, calls) \<Rightarrow> (r, calls)))"

section \<open>POST /api/mcp/coordinate\<close>

text \<open>
  One turn of the \<open>for\<close> loop over \<open>tasks\<close> in \<open>setupMCPServer\<close>: the guard
  \<open>!agents[t.taskType]\<close> with its entry \<open>{ agent: t.taskType, error: 'Unknown agent' }\<close>,
  else the call \<open>agents[t.taskType].handleTask(t)\<close> on the element itself and the entry
  \<open>{ agent: t.taskType, result }\<close>. The value is the entry pushed on \<open>results\<close>, or a throw.
  Nothing catches a throw here.
\<close>

definition coordinate_task :: "env \<Rightarrow> jsval \<Rightarrow> (error + jsval) \<times> invocation list" where
  "coordinate_task ev t =
     bindC (getField t ''taskType'') (\<lambda>taskType.
     bindC (agents_index taskType) (\<lambda>sl.
     if sl = Missing
     then (Inr (JObj [(''agent'', taskType), (''error'', JStr ''Unknown agent'')]), [])
     else
     (case invoke ev sl t of
        (Inl e, calls) \<Rightarrow> (Inl e, calls)
      | (Inr result, calls) \<Rightarrow> (Inr (JObj [(''agent'', taskType), (''result'', result)]), calls))))"

text \<open>The loop, with \<open>results\<close> and the calls made so far.\<close>

fun coordinate_loop ::
  "env \<Rightarrow> jsval list \<Rightarrow> jsval list \<Rightarrow> invocation list \<Rightarrow> (error + jsval list) \<times> invocation list" where
  "coordinate_loop ev [] results calls = (Inr results, calls)"
| "coordinate_loop ev (t # ts) results calls =
     (case coordinate_task ev t of
        (Inl e, cs) \<Rightarrow> (Inl e, calls @ cs)
      | (Inr entry, cs) \<Rightarrow> coordinate_loop ev ts (results @ [entry]) (calls @ cs))"

text \<open>The route: \<open>const { tasks } = req.body\<close>, the \<open>Array.isArray\<close> guard, the loop.\<close>

definition mcp_coordinate :: "env \<Rightarrow> jsval \<Rightarrow> reply \<times> invocation list" where
  "mcp_coordinate ev b =
     (case getField b ''tasks'' of
        Inl e \<Rightarrow> (Unhandled e, [])
      | Inr tasks \<Rightarrow>
          (case tasks of
             JArr ts \<Rightarrow>
               (case coordinate_loop ev ts [] [] of
                  (Inl e, calls) \<Rightarrow> (Unhandled e, calls)
                | (Inr results, calls) \<Rightarrow>
                    (Responded 200 (JObj [(''results'', JArr results)]), calls))
           | _ \<Rightarrow> (Responded 400 (JObj [(''error'', JStr ''Tasks must be array'')]), [])))"

section \<open>A concrete environment\<close>

text \<open>
  For the examples: one token, \<open>good\<close>, verifies, to the claims \<open>{ id: 'u1' }\<close>; the
  network is down, so every \<open>axios.get\<close> rejects; the strings encoded need no escape.
\<close>

definition env_offline :: env where
  "env_offline =
     \<lparr> verifyToken = (\<lambda>t. if t = ''good'' then Inr (JObj [(''id'', JStr ''u1'')])
                          else Inl (Thrown ''JsonWebTokenError'')),
       encodeURIComponent = (\<lambda>s. Inr s),
       axios_get = (\<lambda>url. Inl (Thrown ''ECONNREFUSED'')) \<rparr>"

section \<open>The claim's table of statuses\<close>

text \<open>
  The four actions the claim about \<open>executionAgent\<close> names, each with the status it
  expects: written from the claim, to be compared with the handler.
\<close>

definition past_tense :: "(string \<times> string) list" where
  "past_tense =
     [(''create'', ''created''), (''read'', ''read''), (''update'', ''updated''), (''delete'', ''deleted'')]"

section \<open>Basic facts\<close>

lemma bindE_simps [simp]: "bindE (Inl e) f = Inl e" "bindE (Inr v) f = f v"
  by (simp_all add: bindE_def)

lemma bindC_simps [simp]: "bindC (Inl e) g = (Inl e, [])" "bindC (Inr v) g = g v"
  by (simp_all add: bindC_def)

lemmas registry_defs = agents_index_def agents_get_def agents_def object_prototype_keys_def

lemmas route_defs = agent_task_def task_try_def bearer_token_def js_not_def

subsection \<open>The single-task route, stage by stage\<close>

lemma agent_task_no_token:
  assumes "bearer_token (authorization req) = None \<or> bearer_token (authorization req) = Some []"
  shows "agent_task ev req = (Responded 401 (JObj [(''error'', JStr ''No token'')]), [])"
  using assms by (auto simp: agent_task_def)

lemma agent_task_bad_token:
  assumes "bearer_token (authorization req) = Some token" and "verifyToken ev token = Inl e"
  shows "agent_task ev req = (Responded 401 (JObj [(''error'', JStr ''No token'')]), [])
       \<or> agent_task ev req = (Responded 401 (JObj [(''error'', JStr ''Invalid token'')]), [])"
  using assms by (simp add: agent_task_def task_try_def)

lemma agent_task_authenticated:
  assumes "bearer_token (authorization req) = Some token" and "token \<noteq> []"
  shows "agent_task ev req =
     (case task_try ev token (body req) of
        (Inl e, calls) \<Rightarrow> (Responded 401 (JObj [(''error'', JStr ''Invalid token'')]), calls)
      | (Inr r, calls) \<Rightarrow> (r, calls))"
  using assms by (simp add: agent_task_def)

lemma task_try_validated:
  assumes "verifyToken ev token = Inr user"
    and "getField b ''taskType'' = Inr ty" and "getField b ''payload'' = Inr p"
    and "truthy ty" and "truthy p"
  shows "task_try ev token b =
     bindC (agents_index ty) (\<lambda>sl.
       if sl = Missing then (Inr (Responded 400 (JObj [(''error'', JStr ''Unknown agent'')])), [])
       else bindC (getField user ''id'') (\<lambda>uid.
         (case invoke ev sl (JObj [(''userId'', uid), (''taskType'', ty), (''payload'', p)]) of
            (Inl e, calls) \<Rightarrow> (Inl e, calls)
          | (Inr result, calls) \<Rightarrow>
              (Inr (Responded 200 (JObj [(''agent'', ty), (''result'', result)])), calls))))"
  using assms by (simp add: task_try_def js_not_def)

lemma task_try_not_missing_fields:
  assumes "verifyToken ev token = Inr user"
    and "getField b ''taskType'' = Inr ty" and "getField b ''payload'' = Inr p"
    and "truthy ty" and "truthy p"
  shows "fst (task_try ev token b) \<noteq> Inr (Responded 400 (JObj [(''error'', JStr ''Missing fields'')]))"
  unfolding task_try_validated [OF assms]
  by (auto simp: bindC_def split: sum.splits prod.splits)

lemma agent_task_missing_fields:
  assumes "bearer_token (authorization req) = Some token" and "token \<noteq> []"
    and "verifyToken ev token = Inr user"
    and "getField (body req) ''taskType'' = Inr ty" and "getField (body req) ''payload'' = Inr p"
    and "js_not ty \<or> js_not p"
  shows "agent_task ev req = (Responded 400 (JObj [(''error'', JStr ''Missing fields'')]), [])"
  using assms(3-6) by (auto simp: agent_task_authenticated [OF assms(1,2)] task_try_def)

lemma agent_task_responds: "\<exists>status b. fst (agent_task ev req) = Responded status b"
proof (cases "bearer_token (authorization req)")
  case None
  then show ?thesis by (simp add: agent_task_def)
next
  case (Some token)
  show ?thesis
  proof (cases "token = []")
    case True
    with Some show ?thesis by (simp add: agent_task_def)
  next
    case False
    obtain r calls where t: "task_try ev token (body req) = (r, calls)"
      by (cases "task_try ev token (body req)")
    have "\<exists>status b. r = Inr (Responded status b) \<or> (\<exists>e. r = Inl e)"
      using t
      by (auto simp: task_try_def bindC_def split: sum.splits if_splits prod.splits)
    with Some False t show ?thesis
      by (auto simp: agent_task_def)
  qed
qed

lemma agent_task_dispatch:
  assumes "bearer_token (authorization req) = Some token" and "token \<noteq> []"
    and "verifyToken ev token = Inr user"
    and "getField (body req) ''taskType'' = Inr ty" and "getField (body req) ''payload'' = Inr p"
    and "truthy ty" and "truthy p"
    and "agents_index ty = Inr (Handler a)"
    and "getField user ''id'' = Inr uid"
  shows "agent_task ev req =
     (case handleTask ev a (JObj [(''userId'', uid), (''taskType'', ty), (''payload'', p)]) of
        Inl e \<Rightarrow> (Responded 401 (JObj [(''error'', JStr ''Invalid token'')]),
                  [(a, JObj [(''userId'', uid), (''taskType'', ty), (''payload'', p)])])
      | Inr result \<Rightarrow> (Responded 200 (JObj [(''agent'', ty), (''result'', result)]),
                  [(a, JObj [(''userId'', uid), (''taskType'', ty), (''payload'', p)])]))"
  by (simp add: agent_task_authenticated [OF assms(1,2)] task_try_validated [OF assms(3-7)] assms(8,9)
      split: sum.splits)

section \<open>Handler failures on the single-task route\<close>

text \<open>
  C2, as the code has it. On the single-task route a failure raised inside \<open>handleTask\<close> is
  caught by the route's \<open>try\<close>/\<open>catch\<close>: the request is answered, with the catch block's
  status 401 and a body that holds an \<open>error\<close> and neither \<open>agent\<close> nor \<open>result\<close>. The
  handler was called once, with the task the route built. No outcome carrying a handler
  error exists in the code.
\<close>

theorem handler_failure_caught:
  assumes "bearer_token (authorization req) = Some token" and "token \<noteq> []"
    and "verifyToken ev token = Inr user"
    and "getField (body req) ''taskType'' = Inr ty" and "getField (body req) ''payload'' = Inr p"
    and "truthy ty" and "truthy p"
    and "agents_index ty = Inr (Handler a)"
    and "getField user ''id'' = Inr uid"
    and "handleTask ev a (JObj [(''userId'', uid), (''taskType'', ty), (''payload'', p)]) = Inl e"
  shows "agent_task ev req =
     (Responded 401 (JObj [(''error'', JStr ''Invalid token'')]),
      [(a, JObj [(''userId'', uid), (''taskType'', ty), (''payload'', p)])])"
  by (simp add: agent_task_dispatch [OF assms(1-9)] assms(10))

text \<open>
  With the network down, a research task sent with a good token: the handler runs, its
  \<open>axios.get\<close> rejects, and the answer is the authentication error, not an outcome
  \<open>{ agent, error }\<close>.
\<close>

theorem handler_failure_counterexample:
  "agent_task env_offline \<lparr> authorization = Some ''Bearer good'',
       body = JObj [(''taskType'', JStr ''research''), (''payload'', JObj [(''query'', JStr ''Isabelle'')])] \<rparr>
   = (Responded 401 (JObj [(''error'', JStr ''Invalid token'')]),
      [(ResearchAgent, JObj [(''userId'', JStr ''u1''), (''taskType'', JStr ''research''),
                             (''payload'', JObj [(''query'', JStr ''Isabelle'')])])])"
  by (simp add: route_defs registry_defs env_offline_def researchAgent_handleTask_def)

theorem handler_failure_caught_witness:
  "handleTask env_offline ResearchAgent
      (JObj [(''userId'', JStr ''u1''), (''taskType'', JStr ''research''),
             (''payload'', JObj [(''query'', JStr ''HOL'')])]) = Inl (Thrown ''ECONNREFUSED'')
   \<and> agent_task env_offline \<lparr> authorization = Some ''Bearer good'',
       body = JObj [(''taskType'', JStr ''research''), (''payload'', JObj [(''query'', JStr ''HOL'')])] \<rparr>
   = (Responded 401 (JObj [(''error'', JStr ''Invalid token'')]),
      [(ResearchAgent, JObj [(''userId'', JStr ''u1''), (''taskType'', JStr ''research''),
                             (''payload'', JObj [(''query'', JStr ''HOL'')])])])"
proof -
  let ?req = "\<lparr> authorization = Some ''Bearer good'',
       body = JObj [(''taskType'', JStr ''research''), (''payload'', JObj [(''query'', JStr ''HOL'')])] \<rparr>"
  let ?task = "JObj [(''userId'', JStr ''u1''), (''taskType'', JStr ''research''),
             (''payload'', JObj [(''query'', JStr ''HOL'')])]"
  have f: "handleTask env_offline ResearchAgent ?task = Inl (Thrown ''ECONNREFUSED'')"
    by (simp add: researchAgent_handleTask_def env_offline_def)
  have "agent_task env_offline ?req =
     (Responded 401 (JObj [(''error'', JStr ''Invalid token'')]), [(ResearchAgent, ?task)])"
  proof (rule handler_failure_caught [where token = "''good''" and user = "JObj [(''id'', JStr ''u1'')]"])
    show "bearer_token (authorization ?req) = Some ''good''" by (simp add: bearer_token_def)
    show "verifyToken env_offline ''good'' = Inr (JObj [(''id'', JStr ''u1'')])" by (simp add: env_offline_def)
    show "agents_index (JStr ''research'') = Inr (Handler ResearchAgent)" by (simp add: registry_defs)
    show "handleTask env_offline ResearchAgent ?task = Inl (Thrown ''ECONNREFUSED'')" by (rule f)
  qed simp_all
  with f show ?thesis by simp
qed

section \<open>An unknown agent on the single-task route\<close>

text \<open>
  C4, as the code has it. For an authenticated request with a truthy \<open>taskType\<close> and
  \<open>payload\<close>, when the read \<open>agents[taskType]\<close> finds nothing, the route throws nothing and
  calls no handler: it answers with status 400 and the body \<open>{ error: 'Unknown agent' }\<close>,
  which has no \<open>agent\<close> field.
\<close>

theorem single_unknown_agent:
  assumes "bearer_token (authorization req) = Some token" and "token \<noteq> []"
    and "verifyToken ev token = Inr user"
    and "getField (body req) ''taskType'' = Inr ty" and "getField (body req) ''payload'' = Inr p"
    and "truthy ty" and "truthy p"
    and "agents_index ty = Inr Missing"
  shows "agent_task ev req = (Responded 400 (JObj [(''error'', JStr ''Unknown agent'')]), [])"
  by (simp add: agent_task_authenticated [OF assms(1,2)] task_try_validated [OF assms(3-7)] assms(8))

text \<open>
  The task type \<open>ghost\<close> has no handler; the answer is a client error with the bare body
  \<open>{ error }\<close>, not a successful call that carries \<open>{ agent, error }\<close>.
\<close>

theorem single_unknown_agent_counterexample:
  "agent_task env_offline \<lparr> authorization = Some ''Bearer good'',
       body = JObj [(''taskType'', JStr ''ghost''), (''payload'', JObj [])] \<rparr>
   = (Responded 400 (JObj [(''error'', JStr ''Unknown agent'')]), [])"
  by (simp add: route_defs registry_defs env_offline_def)

theorem single_unknown_agent_witness:
  "agents_index (JStr ''ghost'') = Inr Missing
   \<and> agent_task env_offline \<lparr> authorization = Some ''Bearer good'',
       body = JObj [(''taskType'', JStr ''ghost''), (''payload'', JArr [])] \<rparr>
     = (Responded 400 (JObj [(''error'', JStr ''Unknown agent'')]), [])"
proof -
  let ?req = "\<lparr> authorization = Some ''Bearer good'',
       body = JObj [(''taskType'', JStr ''ghost''), (''payload'', JArr [])] \<rparr>"
  have m: "agents_index (JStr ''ghost'') = Inr Missing"
    by (simp add: registry_defs)
  have "agent_task env_offline ?req = (Responded 400 (JObj [(''error'', JStr ''Unknown agent'')]), [])"
  proof (rule single_unknown_agent [where token = "''good''" and ty = "JStr ''ghost''" and p = "JArr []"])
    show "bearer_token (authorization ?req) = Some ''good''" by (simp add: bearer_token_def)
    show "verifyToken env_offline ''good'' = Inr (JObj [(''id'', JStr ''u1'')])" by (simp add: env_offline_def)
  qed (simp_all add: m)
  with m show ?thesis by simp
qed

section \<open>The authentication gate\<close>

text \<open>
  C5. When the bearer credential is missing (no header, no second word in it, or an empty
  one) or invalid (\<open>verifyToken\<close> throws), the single-task route answers 401 and no
  handler is called.
\<close>

theorem auth_gate:
  assumes "bearer_token (authorization req) = None
         \<or> bearer_token (authorization req) = Some []
         \<or> (\<exists>token e. bearer_token (authorization req) = Some token \<and> verifyToken ev token = Inl e)"
  shows "(fst (agent_task ev req) = Responded 401 (JObj [(''error'', JStr ''No token'')])
          \<or> fst (agent_task ev req) = Responded 401 (JObj [(''error'', JStr ''Invalid token'')]))
       \<and> snd (agent_task ev req) = []"
  using assms agent_task_no_token [of req ev] agent_task_bad_token [of req _ ev]
  by fastforce

theorem auth_gate_witness:
  "bearer_token (authorization \<lparr> authorization = Some ''Bearer forged'',
       body = JObj [(''taskType'', JStr ''execution''), (''payload'', JObj [(''action'', JStr ''delete'')])] \<rparr>) = Some ''forged''
   \<and> verifyToken env_offline ''forged'' = Inl (Thrown ''JsonWebTokenError'')
   \<and> agent_task env_offline \<lparr> authorization = Some ''Bearer forged'',
       body = JObj [(''taskType'', JStr ''execution''), (''payload'', JObj [(''action'', JStr ''delete'')])] \<rparr>
     = (Responded 401 (JObj [(''error'', JStr ''Invalid token'')]), [])"
proof -
  let ?req = "\<lparr> authorization = Some ''Bearer forged'',
       body = JObj [(''taskType'', JStr ''execution''), (''payload'', JObj [(''action'', JStr ''delete'')])] \<rparr>"
  have t: "bearer_token (authorization ?req) = Some ''forged''"
    by (simp add: bearer_token_def)
  have v: "verifyToken env_offline ''forged'' = Inl (Thrown ''JsonWebTokenError'')"
    by (simp add: env_offline_def)
  have h: "bearer_token (authorization ?req) = None
         \<or> bearer_token (authorization ?req) = Some []
         \<or> (\<exists>token e. bearer_token (authorization ?req) = Some token \<and> verifyToken env_offline token = Inl e)"
    using t v by blast
  have "fst (agent_task env_offline ?req) \<noteq> Responded 401 (JObj [(''error'', JStr ''No token'')])"
    using t v by (simp add: agent_task_def task_try_def)
  with auth_gate [OF h] t v show ?thesis
    by (metis prod.collapse)
qed

section \<open>Validation on the single-task route\<close>

text \<open>
  C6, as the code has it. One guard tests both fields: for an authenticated request whose
  body lacks a truthy \<open>taskType\<close> or a truthy \<open>payload\<close>, either or both, the route answers
  400 with the one body \<open>{ error: 'Missing fields' }\<close>, which names no field, and calls no
  handler.
\<close>

theorem missing_fields_report:
  assumes "bearer_token (authorization req) = Some token" and "token \<noteq> []"
    and "verifyToken ev token = Inr user"
    and "getField (body req) ''taskType'' = Inr ty" and "getField (body req) ''payload'' = Inr p"
    and "js_not ty \<or> js_not p"
  shows "agent_task ev req = (Responded 400 (JObj [(''error'', JStr ''Missing fields'')]), [])"
  using assms by (rule agent_task_missing_fields)

text \<open>
  A body with neither field gets the report \<open>Missing fields\<close>, and it is the very answer
  given to a body that has its \<open>taskType\<close> and lacks only the \<open>payload\<close>: the report does
  not say that \<open>taskType\<close> was the field found missing.
\<close>

theorem missing_fields_report_counterexample:
  "agent_task env_offline \<lparr> authorization = Some ''Bearer good'', body = JObj [] \<rparr>
     = (Responded 400 (JObj [(''error'', JStr ''Missing fields'')]), [])
   \<and> agent_task env_offline \<lparr> authorization = Some ''Bearer good'', body = JObj [] \<rparr>
     = agent_task env_offline \<lparr> authorization = Some ''Bearer good'',
         body = JObj [(''taskType'', JStr ''planner'')] \<rparr>"
  by (simp add: route_defs env_offline_def)

theorem missing_fields_report_witness:
  "js_not JUndefined
   \<and> agent_task env_offline \<lparr> authorization = Some ''Bearer good'', body = JObj [(''payload'', JObj [])] \<rparr>
     = (Responded 400 (JObj [(''error'', JStr ''Missing fields'')]), [])"
proof -
  let ?req = "\<lparr> authorization = Some ''Bearer good'', body = JObj [(''payload'', JObj [])] \<rparr>"
  have n: "js_not JUndefined" by (simp add: js_not_def)
  have "agent_task env_offline ?req = (Responded 400 (JObj [(''error'', JStr ''Missing fields'')]), [])"
  proof (rule missing_fields_report [where token = "''good''" and ty = JUndefined and p = "JObj []"])
    show "bearer_token (authorization ?req) = Some ''good''" by (simp add: bearer_token_def)
    show "verifyToken env_offline ''good'' = Inr (JObj [(''id'', JStr ''u1'')])" by (simp add: env_offline_def)
  qed (simp_all add: n)
  with n show ?thesis by simp
qed

text \<open>
  C7, as the code has it. For an authenticated request whose \<open>taskType\<close> is a non-empty
  string, the route answers \<open>Missing fields\<close> exactly when \<open>payload\<close> is falsy: absent,
  \<open>null\<close>, \<open>false\<close>, \<open>0\<close> or the empty string. An empty object and an empty array are
  not falsy. With a payload that is not falsy the task passes the guard and goes on to the
  registry: the answer is the one the read \<open>agents[taskType]\<close> decides, \<open>Unknown agent\<close>
  when it finds nothing, else the outcome of the call made on what it found.
\<close>

theorem payload_check:
  assumes "bearer_token (authorization req) = Some token" and "token \<noteq> []"
    and "verifyToken ev token = Inr user"
    and "getField (body req) ''taskType'' = Inr (JStr s)" and "s \<noteq> []"
    and "getField (body req) ''payload'' = Inr p"
  shows "((fst (agent_task ev req) = Responded 400 (JObj [(''error'', JStr ''Missing fields'')])) = js_not p)
       \<and> js_not (JObj []) = False \<and> js_not (JArr []) = False
       \<and> (js_not p = False \<longrightarrow>
            agent_task ev req =
              (if agents_get s = Missing
               then (Responded 400 (JObj [(''error'', JStr ''Unknown agent'')]), [])
               else (case getField user ''id'' of
                       Inl e \<Rightarrow> (Responded 401 (JObj [(''error'', JStr ''Invalid token'')]), [])
                     | Inr uid \<Rightarrow>
                         (case invoke ev (agents_get s)
                                 (JObj [(''userId'', uid), (''taskType'', JStr s), (''payload'', p)]) of
                            (Inl e, calls) \<Rightarrow>
                              (Responded 401 (JObj [(''error'', JStr ''Invalid token'')]), calls)
                          | (Inr result, calls) \<Rightarrow>
                              (Responded 200 (JObj [(''agent'', JStr s), (''result'', result)]), calls)))))"
proof (intro conjI impI)
  show "(fst (agent_task ev req) = Responded 400 (JObj [(''error'', JStr ''Missing fields'')])) = js_not p"
  proof (cases "truthy p")
    case False
    then have "js_not (JStr s) \<or> js_not p" by (simp add: js_not_def)
    from agent_task_missing_fields [OF assms(1-4) assms(6) this] False show ?thesis
      by (simp add: js_not_def)
  next
    case True
    have "truthy (JStr s)" using assms(5) by simp
    from task_try_not_missing_fields [OF assms(3,4,6) this True] True show ?thesis
      by (auto simp: agent_task_authenticated [OF assms(1,2)] js_not_def split: prod.splits sum.splits)
  qed
next
  show "js_not (JObj []) = False" by (simp add: js_not_def)
next
  show "js_not (JArr []) = False" by (simp add: js_not_def)
next
  assume "js_not p = False"
  then have p: "truthy p" by (simp add: js_not_def)
  have s: "truthy (JStr s)" using assms(5) by simp
  have i: "agents_index (JStr s) = Inr (agents_get s)" by (simp add: agents_index_def)
  show "agent_task ev req =
      (if agents_get s = Missing
       then (Responded 400 (JObj [(''error'', JStr ''Unknown agent'')]), [])
       else (case getField user ''id'' of
               Inl e \<Rightarrow> (Responded 401 (JObj [(''error'', JStr ''Invalid token'')]), [])
             | Inr uid \<Rightarrow>
                 (case invoke ev (agents_get s)
                         (JObj [(''userId'', uid), (''taskType'', JStr s), (''payload'', p)]) of
                    (Inl e, calls) \<Rightarrow>
                      (Responded 401 (JObj [(''error'', JStr ''Invalid token'')]), calls)
                  | (Inr result, calls) \<Rightarrow>
                      (Responded 200 (JObj [(''agent'', JStr s), (''result'', result)]), calls))))"
    by (simp add: agent_task_authenticated [OF assms(1,2)] task_try_validated [OF assms(3,4,6) s p] i
        split: sum.splits prod.splits)
qed

text \<open>The payload \<open>0\<close> is present in the body, and the request is refused all the same.\<close>

theorem payload_check_counterexample:
  "agent_task env_offline \<lparr> authorization = Some ''Bearer good'',
       body = JObj [(''taskType'', JStr ''planner''), (''payload'', JNum 0)] \<rparr>
   = (Responded 400 (JObj [(''error'', JStr ''Missing fields'')]), [])"
  by (simp add: route_defs env_offline_def)

text \<open>
  An empty object as payload of a planner task: the guard lets it through, the registry is
  read, the planner is called with the task the route built and its steps are sent with
  status 200.
\<close>

theorem payload_check_witness:
  "js_not (JObj []) = False
   \<and> agents_get ''planner'' = Handler PlannerAgent
   \<and> agent_task env_offline \<lparr> authorization = Some ''Bearer good'',
         body = JObj [(''taskType'', JStr ''planner''), (''payload'', JObj [])] \<rparr>
     = (Responded 200 (JObj [(''agent'', JStr ''planner''),
          (''result'', JObj [(''steps'', JArr
             [JStr ''Define the goal: undefined'',
              JStr ''Research requirements'',
              JStr ''List resources'',
              JStr ''Create timeline'',
              JStr ''Assign tasks''])])]),
        [(PlannerAgent, JObj [(''userId'', JStr ''u1''), (''taskType'', JStr ''planner''),
                              (''payload'', JObj [])])])
   \<and> fst (agent_task env_offline \<lparr> authorization = Some ''Bearer good'',
         body = JObj [(''taskType'', JStr ''planner''), (''payload'', JObj [])] \<rparr>)
     \<noteq> Responded 400 (JObj [(''error'', JStr ''Missing fields'')])"
proof -
  let ?req = "\<lparr> authorization = Some ''Bearer good'',
         body = JObj [(''taskType'', JStr ''planner''), (''payload'', JObj [])] \<rparr>"
  have t: "bearer_token (authorization ?req) = Some ''good''" by (simp add: bearer_token_def)
  have v: "verifyToken env_offline ''good'' = Inr (JObj [(''id'', JStr ''u1'')])"
    by (simp add: env_offline_def)
  have n: "js_not (JObj []) = False" by (simp add: js_not_def)
  have g: "agents_get ''planner'' = Handler PlannerAgent" by (simp add: agents_get_def agents_def)
  have h: "plannerAgent_handleTask
       (JObj [(''userId'', JStr ''u1''), (''taskType'', JStr ''planner''), (''payload'', JObj [])])
     = Inr (JObj [(''steps'', JArr
             [JStr ''Define the goal: undefined'',
              JStr ''Research requirements'',
              JStr ''List resources'',
              JStr ''Create timeline'',
              JStr ''Assign tasks''])])"
    by (simp add: plannerAgent_handleTask_def)
  have ne: "''good'' \<noteq> []" by simp
  have ft: "getField (body ?req) ''taskType'' = Inr (JStr ''planner'')" by simp
  have sne: "''planner'' \<noteq> []" by simp
  have fp: "getField (body ?req) ''payload'' = Inr (JObj [])" by simp
  note pc = payload_check [OF t ne v ft sne fp]
  from pc [THEN conjunct1] n have "fst (agent_task env_offline ?req)
      \<noteq> Responded 400 (JObj [(''error'', JStr ''Missing fields'')])"
    by (simp only: simp_thms)
  moreover from pc [THEN conjunct2, THEN conjunct2, THEN conjunct2, THEN mp, OF n]
  have "agent_task env_offline ?req =
      (Responded 200 (JObj [(''agent'', JStr ''planner''),
          (''result'', JObj [(''steps'', JArr
             [JStr ''Define the goal: undefined'',
              JStr ''Research requirements'',
              JStr ''List resources'',
              JStr ''Create timeline'',
              JStr ''Assign tasks''])])]),
        [(PlannerAgent, JObj [(''userId'', JStr ''u1''), (''taskType'', JStr ''planner''),
                              (''payload'', JObj [])])])"
    by (simp add: g h)
  ultimately show ?thesis using n g by simp
qed

section \<open>The batch route\<close>

subsection \<open>One turn of the loop, by what the registry read finds\<close>

lemma coordinate_task_unknown:
  assumes "getField t ''taskType'' = Inr ty" and "agents_index ty = Inr Missing"
  shows "coordinate_task ev t = (Inr (JObj [(''agent'', ty), (''error'', JStr ''Unknown agent'')]), [])"
  using assms by (simp add: coordinate_task_def)

lemma coordinate_task_registered:
  assumes "getField t ''taskType'' = Inr ty" and "agents_index ty = Inr (Handler a)"
  shows "coordinate_task ev t =
     (case handleTask ev a t of
        Inl e \<Rightarrow> (Inl e, [(a, t)])
      | Inr result \<Rightarrow> (Inr (JObj [(''agent'', ty), (''result'', result)]), [(a, t)]))"
  using assms by (simp add: coordinate_task_def split: sum.splits)

lemma coordinate_task_inherited:
  assumes "getField t ''taskType'' = Inr ty" and "agents_index ty = Inr Inherited"
  shows "coordinate_task ev t = (Inl TypeError, [])"
  using assms by (simp add: coordinate_task_def)

lemma coordinate_task_calls:
  "snd (coordinate_task ev t) = [] \<or> (\<exists>a. snd (coordinate_task ev t) = [(a, t)])"
proof (cases "getField t ''taskType''")
  case (Inl e)
  then show ?thesis by (simp add: coordinate_task_def)
next
  case (Inr ty)
  show ?thesis
  proof (cases "agents_index ty")
    case (Inl e)
    with Inr show ?thesis by (simp add: coordinate_task_def)
  next
    case sl: (Inr sl)
    show ?thesis
    proof (cases sl)
      case (Handler a)
      with Inr sl show ?thesis
        by (simp add: coordinate_task_registered split: sum.splits)
    next
      case Inherited
      with Inr sl show ?thesis by (simp add: coordinate_task_inherited)
    next
      case Missing
      with Inr sl show ?thesis by (simp add: coordinate_task_unknown)
    qed
  qed
qed

subsection \<open>The loop when no turn throws, and the calls it makes\<close>

lemma coordinate_loop_completes:
  assumes "\<forall>t\<in>set ts. \<exists>entry. fst (coordinate_task ev t) = Inr entry"
  shows "coordinate_loop ev ts results calls =
     (Inr (results @ map (\<lambda>t. projr (fst (coordinate_task ev t))) ts),
      calls @ concat (map (\<lambda>t. snd (coordinate_task ev t)) ts))"
  using assms
proof (induction ts arbitrary: results calls)
  case Nil
  then show ?case by simp
next
  case (Cons t ts)
  from Cons.prems obtain entry where e: "fst (coordinate_task ev t) = Inr entry"
    by auto
  then obtain cs where c: "coordinate_task ev t = (Inr entry, cs)"
    by (cases "coordinate_task ev t") simp
  from Cons.prems have "\<forall>t\<in>set ts. \<exists>entry. fst (coordinate_task ev t) = Inr entry"
    by simp
  from Cons.IH [OF this] c show ?case by simp
qed

lemma coordinate_loop_calls:
  "snd ` set (snd (coordinate_loop ev ts results calls)) \<subseteq> snd ` set calls \<union> set ts"
proof (induction ts arbitrary: results calls)
  case Nil
  then show ?case by simp
next
  case (Cons t ts)
  obtain r cs where c: "coordinate_task ev t = (r, cs)"
    by (cases "coordinate_task ev t")
  with coordinate_task_calls [of ev t] have cs: "snd ` set cs \<subseteq> {t}"
    by auto
  show ?case
  proof (cases r)
    case (Inl e)
    with c cs show ?thesis by auto
  next
    case (Inr entry)
    with c have "coordinate_loop ev (t # ts) results calls = coordinate_loop ev ts (results @ [entry]) (calls @ cs)"
      by simp
    then have "snd ` set (snd (coordinate_loop ev (t # ts) results calls))
        \<subseteq> snd ` set (calls @ cs) \<union> set ts"
      using Cons.IH [of "results @ [entry]" "calls @ cs"] by (simp only:)
    also have "\<dots> \<subseteq> snd ` set calls \<union> set (t # ts)"
      using cs by auto
    finally show ?thesis .
  qed
qed

lemma mcp_coordinate_calls:
  assumes "getField b ''tasks'' = Inr (JArr ts)"
  shows "snd ` set (snd (mcp_coordinate ev b)) \<subseteq> set ts"
proof -
  obtain r cs where l: "coordinate_loop ev ts [] [] = (r, cs)"
    by (cases "coordinate_loop ev ts [] []")
  with coordinate_loop_calls [of ev ts "[]" "[]"] have "snd ` set cs \<subseteq> set ts"
    by simp
  with l assms show ?thesis
    by (cases r) (simp_all add: mcp_coordinate_def)
qed

lemmas batch_defs = mcp_coordinate_def coordinate_task_def

text \<open>
  C1, as the code has it. For a batch of N tasks in which no turn of the loop throws, the
  route answers with exactly N outcomes, the outcome at each index being the one of the task
  at that index, in the order of the input. A task whose type finds nothing in the registry
  does not throw: its outcome is the unknown-agent entry, and the loop goes on.
\<close>

theorem batch_order:
  assumes "getField b ''tasks'' = Inr (JArr ts)"
    and "\<forall>t\<in>set ts. \<exists>entry. fst (coordinate_task ev t) = Inr entry"
  shows "\<exists>outs. fst (mcp_coordinate ev b) = Responded 200 (JObj [(''results'', JArr outs)])
           \<and> length outs = length ts
           \<and> (\<forall>i<length ts. fst (coordinate_task ev (ts ! i)) = Inr (outs ! i))
           \<and> (\<forall>i<length ts. \<forall>ty.
                 getField (ts ! i) ''taskType'' = Inr ty \<and> agents_index ty = Inr Missing \<longrightarrow>
                 outs ! i = JObj [(''agent'', ty), (''error'', JStr ''Unknown agent'')])"
proof -
  let ?outs = "map (\<lambda>t. projr (fst (coordinate_task ev t))) ts"
  have "fst (mcp_coordinate ev b) = Responded 200 (JObj [(''results'', JArr ?outs)])"
    by (simp add: mcp_coordinate_def assms(1) coordinate_loop_completes [OF assms(2)])
  moreover have "length ?outs = length ts" by simp
  moreover have "\<forall>i<length ts. fst (coordinate_task ev (ts ! i)) = Inr (?outs ! i)"
  proof (intro allI impI)
    fix i assume i: "i < length ts"
    then have "ts ! i \<in> set ts" by simp
    with assms(2) obtain entry where "fst (coordinate_task ev (ts ! i)) = Inr entry"
      by blast
    with i show "fst (coordinate_task ev (ts ! i)) = Inr (?outs ! i)" by simp
  qed
  moreover have "\<forall>i<length ts. \<forall>ty.
      getField (ts ! i) ''taskType'' = Inr ty \<and> agents_index ty = Inr Missing \<longrightarrow>
      ?outs ! i = JObj [(''agent'', ty), (''error'', JStr ''Unknown agent'')]"
    by (simp add: coordinate_task_unknown)
  ultimately show ?thesis by blast
qed

text \<open>
  Two tasks, the second a planner task without a payload: \<open>task.payload.goal\<close> throws inside
  the handler, nothing catches it, and the route sends no outcome at all, not even the one
  the first task produced.
\<close>

theorem batch_order_counterexample:
  "mcp_coordinate env_offline (JObj [(''tasks'', JArr
      [JObj [(''taskType'', JStr ''execution''), (''payload'', JObj [(''action'', JStr ''read'')])],
       JObj [(''taskType'', JStr ''planner'')]])])
   = (Unhandled TypeError,
      [(ExecutionAgent, JObj [(''taskType'', JStr ''execution''), (''payload'', JObj [(''action'', JStr ''read'')])]),
       (PlannerAgent, JObj [(''taskType'', JStr ''planner'')])])"
  by (simp add: batch_defs registry_defs executionAgent_handleTask_def plannerAgent_handleTask_def)

theorem batch_order_witness:
  "fst (mcp_coordinate env_offline (JObj [(''tasks'', JArr
      [JObj [(''taskType'', JStr ''ghost''), (''payload'', JObj [])],
       JObj [(''taskType'', JStr ''execution''), (''payload'', JObj [(''action'', JStr ''read'')])],
       JObj []])]))
   = Responded 200 (JObj [(''results'', JArr
      [JObj [(''agent'', JStr ''ghost''), (''error'', JStr ''Unknown agent'')],
       JObj [(''agent'', JStr ''execution''),
             (''result'', JObj [(''status'', JStr ''read''), (''data'', JUndefined)])],
       JObj [(''agent'', JUndefined), (''error'', JStr ''Unknown agent'')]])])"
proof -
  let ?t0 = "JObj [(''taskType'', JStr ''ghost''), (''payload'', JObj [])]"
  let ?t1 = "JObj [(''taskType'', JStr ''execution''), (''payload'', JObj [(''action'', JStr ''read'')])]"
  let ?t2 = "JObj []"
  let ?b = "JObj [(''tasks'', JArr [?t0, ?t1, ?t2])]"
  have c0: "fst (coordinate_task env_offline ?t0)
      = Inr (JObj [(''agent'', JStr ''ghost''), (''error'', JStr ''Unknown agent'')])"
    by (simp add: coordinate_task_def registry_defs)
  have c1: "fst (coordinate_task env_offline ?t1)
      = Inr (JObj [(''agent'', JStr ''execution''),
             (''result'', JObj [(''status'', JStr ''read''), (''data'', JUndefined)])])"
    by (simp add: coordinate_task_def registry_defs executionAgent_handleTask_def)
  have c2: "fst (coordinate_task env_offline ?t2)
      = Inr (JObj [(''agent'', JUndefined), (''error'', JStr ''Unknown agent'')])"
    by (simp add: coordinate_task_def registry_defs)
  have g: "getField ?b ''tasks'' = Inr (JArr [?t0, ?t1, ?t2])" by simp
  have h: "\<forall>t\<in>set [?t0, ?t1, ?t2]. \<exists>entry. fst (coordinate_task env_offline t) = Inr entry"
    using c0 c1 c2 by simp
  from batch_order [OF g h] obtain outs where
    r: "fst (mcp_coordinate env_offline ?b) = Responded 200 (JObj [(''results'', JArr outs)])"
    and l: "length outs = length [?t0, ?t1, ?t2]"
    and o: "\<forall>i<length [?t0, ?t1, ?t2]. fst (coordinate_task env_offline ([?t0, ?t1, ?t2] ! i)) = Inr (outs ! i)"
    by auto
  from l obtain x y z where outs: "outs = [x, y, z]"
    by (cases outs; cases "tl outs"; cases "tl (tl outs)") auto
  have "fst (coordinate_task env_offline ?t0) = Inr (outs ! 0)"
    and "fst (coordinate_task env_offline ?t1) = Inr (outs ! 1)"
    and "fst (coordinate_task env_offline ?t2) = Inr (outs ! 2)"
    using o [rule_format, of 0] o [rule_format, of 1] o [rule_format, of 2] by simp_all
  with c0 c1 c2 outs have "x = JObj [(''agent'', JStr ''ghost''), (''error'', JStr ''Unknown agent'')]"
    and "y = JObj [(''agent'', JStr ''execution''),
             (''result'', JObj [(''status'', JStr ''read''), (''data'', JUndefined)])]"
    and "z = JObj [(''agent'', JUndefined), (''error'', JStr ''Unknown agent'')]"
    by simp_all
  with r outs show ?thesis by simp
qed

section \<open>Task types that are not registered\<close>

text \<open>
  C3, at an input where the code departs from it. The task type \<open>toString\<close> is no registered
  handler name, yet \<open>agents['toString']\<close> is the function inherited from
  \<open>Object.prototype\<close> and is truthy: the guard lets it through, the call of its missing
  \<open>handleTask\<close> throws, and the batch ends with no response. There is no unknown-agent
  outcome for that index, and the result of the execution task before it is lost.
\<close>

theorem unknown_agent_inherited_name:
  "mcp_coordinate ev (JObj [(''tasks'', JArr
      [JObj [(''taskType'', JStr ''execution''), (''payload'', JObj [(''action'', JStr ''read'')])],
       JObj [(''taskType'', JStr ''toString''), (''payload'', JObj [])]])])
   = (Unhandled TypeError,
      [(ExecutionAgent, JObj [(''taskType'', JStr ''execution''), (''payload'', JObj [(''action'', JStr ''read'')])])])"
  by (simp add: batch_defs registry_defs executionAgent_handleTask_def)

text \<open>
  C9, at an input where the code departs from it. A single element whose task type is the
  unregistered name \<open>constructor\<close>: the coordinator throws and emits nothing, rather than
  the outcome \<open>{ agent: 'constructor', error: 'Unknown agent' }\<close>. No handler was called.
\<close>

theorem batch_unregistered_throws:
  "mcp_coordinate ev (JObj [(''tasks'', JArr [JObj [(''taskType'', JStr ''constructor'')]])])
   = (Unhandled TypeError, [])"
  by (simp add: batch_defs registry_defs)

section \<open>The identity a handler receives\<close>

text \<open>
  C8. On the single-task route, for an authenticated and validated task whose type is
  registered, the handler is called once, with a task that carries the caller's identity:
  \<open>userId\<close> is the \<open>id\<close> of the claims that \<open>verifyToken\<close> resolved. On the batch route every
  argument a handler receives is an element of the input array as it came in: the
  coordinator attaches nothing.
\<close>

theorem identity_binding:
  "(bearer_token (authorization req) = Some token \<and> token \<noteq> []
      \<and> verifyToken ev token = Inr user \<and> getField user ''id'' = Inr uid
      \<and> getField (body req) ''taskType'' = Inr ty \<and> getField (body req) ''payload'' = Inr p
      \<and> truthy ty \<and> truthy p \<and> agents_index ty = Inr (Handler a)
     \<longrightarrow> snd (agent_task ev req) = [(a, JObj [(''userId'', uid), (''taskType'', ty), (''payload'', p)])])
   \<and> (getField b ''tasks'' = Inr (JArr ts) \<longrightarrow> snd ` set (snd (mcp_coordinate ev b)) \<subseteq> set ts)"
proof (intro conjI impI)
  assume h: "bearer_token (authorization req) = Some token \<and> token \<noteq> []
      \<and> verifyToken ev token = Inr user \<and> getField user ''id'' = Inr uid
      \<and> getField (body req) ''taskType'' = Inr ty \<and> getField (body req) ''payload'' = Inr p
      \<and> truthy ty \<and> truthy p \<and> agents_index ty = Inr (Handler a)"
  then have "agent_task ev req =
     (case handleTask ev a (JObj [(''userId'', uid), (''taskType'', ty), (''payload'', p)]) of
        Inl e \<Rightarrow> (Responded 401 (JObj [(''error'', JStr ''Invalid token'')]),
                  [(a, JObj [(''userId'', uid), (''taskType'', ty), (''payload'', p)])])
      | Inr result \<Rightarrow> (Responded 200 (JObj [(''agent'', ty), (''result'', result)]),
                  [(a, JObj [(''userId'', uid), (''taskType'', ty), (''payload'', p)])]))"
    using agent_task_dispatch [of req token ev user ty p a uid] by simp
  then show "snd (agent_task ev req) = [(a, JObj [(''userId'', uid), (''taskType'', ty), (''payload'', p)])]"
    by (simp split: sum.splits)
next
  assume "getField b ''tasks'' = Inr (JArr ts)"
  then show "snd ` set (snd (mcp_coordinate ev b)) \<subseteq> set ts"
    by (rule mcp_coordinate_calls)
qed

theorem identity_binding_witness:
  "snd (agent_task env_offline \<lparr> authorization = Some ''Bearer good'',
        body = JObj [(''taskType'', JStr ''execution''),
                     (''payload'', JObj [(''action'', JStr ''create''), (''data'', JStr ''x'')])] \<rparr>)
     = [(ExecutionAgent, JObj [(''userId'', JStr ''u1''), (''taskType'', JStr ''execution''),
                               (''payload'', JObj [(''action'', JStr ''create''), (''data'', JStr ''x'')])])]
   \<and> snd ` set (snd (mcp_coordinate env_offline (JObj [(''tasks'', JArr
          [JObj [(''taskType'', JStr ''execution''), (''payload'', JObj [(''action'', JStr ''create'')])]])])))
     \<subseteq> {JObj [(''taskType'', JStr ''execution''), (''payload'', JObj [(''action'', JStr ''create'')])]}"
proof -
  let ?p = "JObj [(''action'', JStr ''create''), (''data'', JStr ''x'')]"
  let ?req = "\<lparr> authorization = Some ''Bearer good'',
        body = JObj [(''taskType'', JStr ''execution''), (''payload'', ?p)] \<rparr>"
  let ?t = "JObj [(''taskType'', JStr ''execution''), (''payload'', JObj [(''action'', JStr ''create'')])]"
  let ?b = "JObj [(''tasks'', JArr [?t])]"
  have single: "bearer_token (authorization ?req) = Some ''good'' \<and> ''good'' \<noteq> []
      \<and> verifyToken env_offline ''good'' = Inr (JObj [(''id'', JStr ''u1'')])
      \<and> getField (JObj [(''id'', JStr ''u1'')]) ''id'' = Inr (JStr ''u1'')
      \<and> getField (body ?req) ''taskType'' = Inr (JStr ''execution'')
      \<and> getField (body ?req) ''payload'' = Inr ?p
      \<and> truthy (JStr ''execution'') \<and> truthy ?p
      \<and> agents_index (JStr ''execution'') = Inr (Handler ExecutionAgent)"
    by (simp add: bearer_token_def env_offline_def registry_defs)
  have batch: "getField ?b ''tasks'' = Inr (JArr [?t])" by simp
  from identity_binding [where req = ?req and token = "''good''" and ev = env_offline
      and user = "JObj [(''id'', JStr ''u1'')]" and uid = "JStr ''u1''" and ty = "JStr ''execution''"
      and p = ?p and a = ExecutionAgent and b = ?b and ts = "[?t]"] single batch
  show ?thesis by simp
qed

section \<open>The execution agent\<close>

lemma execution_known:
  assumes "getField task ''payload'' = Inr payload"
    and "getField payload ''action'' = Inr (JStr verb)"
    and "getField payload ''data'' = Inr d"
    and "map_of past_tense verb = Some status"
  shows "executionAgent_handleTask task = Inr (JObj [(''status'', JStr status), (''data'', d)])"
  using assms by (auto simp: executionAgent_handleTask_def past_tense_def split: if_splits)

lemma execution_other:
  assumes "getField task ''payload'' = Inr payload"
    and "getField payload ''action'' = Inr action"
    and "getField payload ''data'' = Inr d"
    and "action \<notin> JStr ` fst ` set past_tense"
  shows "executionAgent_handleTask task = Inr (JObj [(''error'', JStr ''Unknown action'')])"
  using assms by (auto simp: executionAgent_handleTask_def past_tense_def split: if_splits)

text \<open>
  C10. Given a task with a payload, \<open>executionAgent.handleTask\<close> returns
  \<open>{ status, data: payload.data }\<close> with the status of the table for each of the four
  actions; for any other value of \<open>action\<close> it returns \<open>{ error: 'Unknown action' }\<close>, as a
  value and not as a throw, and the single-task route sends it under \<open>result\<close> with
  status 200.
\<close>

theorem execution_agent_results:
  assumes "getField task ''payload'' = Inr payload"
    and "getField payload ''action'' = Inr action"
    and "getField payload ''data'' = Inr d"
  shows "(\<forall>verb status. action = JStr verb \<and> map_of past_tense verb = Some status \<longrightarrow>
            executionAgent_handleTask task = Inr (JObj [(''status'', JStr status), (''data'', d)]))
       \<and> (action \<notin> JStr ` fst ` set past_tense \<longrightarrow>
            executionAgent_handleTask task = Inr (JObj [(''error'', JStr ''Unknown action'')]))
       \<and> (action \<notin> JStr ` fst ` set past_tense
            \<and> bearer_token (authorization req) = Some token \<and> token \<noteq> []
            \<and> verifyToken ev token = Inr user \<and> getField user ''id'' = Inr uid
            \<and> getField (body req) ''taskType'' = Inr ty \<and> getField (body req) ''payload'' = Inr payload
            \<and> truthy ty \<and> truthy payload \<and> agents_index ty = Inr (Handler ExecutionAgent) \<longrightarrow>
            fst (agent_task ev req) =
              Responded 200 (JObj [(''agent'', ty), (''result'', JObj [(''error'', JStr ''Unknown action'')])]))"
proof (intro conjI allI impI)
  fix verb status
  assume "action = JStr verb \<and> map_of past_tense verb = Some status"
  with assms show "executionAgent_handleTask task = Inr (JObj [(''status'', JStr status), (''data'', d)])"
    by (simp add: execution_known)
next
  assume "action \<notin> JStr ` fst ` set past_tense"
  with assms show "executionAgent_handleTask task = Inr (JObj [(''error'', JStr ''Unknown action'')])"
    by (rule execution_other)
next
  assume h: "action \<notin> JStr ` fst ` set past_tense
            \<and> bearer_token (authorization req) = Some token \<and> token \<noteq> []
            \<and> verifyToken ev token = Inr user \<and> getField user ''id'' = Inr uid
            \<and> getField (body req) ''taskType'' = Inr ty \<and> getField (body req) ''payload'' = Inr payload
            \<and> truthy ty \<and> truthy payload \<and> agents_index ty = Inr (Handler ExecutionAgent)"
  let ?built = "JObj [(''userId'', uid), (''taskType'', ty), (''payload'', payload)]"
  have "getField ?built ''payload'' = Inr payload" by simp
  from execution_other [OF this assms(2,3)] h
  have "handleTask ev ExecutionAgent ?built = Inr (JObj [(''error'', JStr ''Unknown action'')])"
    by simp
  with h agent_task_dispatch [of req token ev user ty payload ExecutionAgent uid]
  show "fst (agent_task ev req) =
      Responded 200 (JObj [(''agent'', ty), (''result'', JObj [(''error'', JStr ''Unknown action'')])])"
    by simp
qed

theorem execution_agent_results_witness:
  "executionAgent_handleTask (JObj [(''userId'', JStr ''u1''), (''taskType'', JStr ''execution''),
        (''payload'', JObj [(''action'', JStr ''update''), (''data'', JNum 7)])])
     = Inr (JObj [(''status'', JStr ''updated''), (''data'', JNum 7)])
   \<and> fst (agent_task env_offline \<lparr> authorization = Some ''Bearer good'',
        body = JObj [(''taskType'', JStr ''execution''),
                     (''payload'', JObj [(''action'', JStr ''archive''), (''data'', JNum 7)])] \<rparr>)
     = Responded 200 (JObj [(''agent'', JStr ''execution''),
                            (''result'', JObj [(''error'', JStr ''Unknown action'')])])"
proof -
  let ?p1 = "JObj [(''action'', JStr ''update''), (''data'', JNum 7)]"
  let ?t1 = "JObj [(''userId'', JStr ''u1''), (''taskType'', JStr ''execution''), (''payload'', ?p1)]"
  let ?p2 = "JObj [(''action'', JStr ''archive''), (''data'', JNum 7)]"
  let ?t2 = "JObj [(''userId'', JStr ''u1''), (''taskType'', JStr ''execution''), (''payload'', ?p2)]"
  let ?req = "\<lparr> authorization = Some ''Bearer good'',
        body = JObj [(''taskType'', JStr ''execution''), (''payload'', ?p2)] \<rparr>"
  have known: "map_of past_tense ''update'' = Some ''updated''"
    by (simp add: past_tense_def)
  have other: "JStr ''archive'' \<notin> JStr ` fst ` set past_tense"
    by (simp add: past_tense_def)
  have route: "bearer_token (authorization ?req) = Some ''good'' \<and> ''good'' \<noteq> []
      \<and> verifyToken env_offline ''good'' = Inr (JObj [(''id'', JStr ''u1'')])
      \<and> getField (JObj [(''id'', JStr ''u1'')]) ''id'' = Inr (JStr ''u1'')
      \<and> getField (body ?req) ''taskType'' = Inr (JStr ''execution'')
      \<and> getField (body ?req) ''payload'' = Inr ?p2
      \<and> truthy (JStr ''execution'') \<and> truthy ?p2
      \<and> agents_index (JStr ''execution'') = Inr (Handler ExecutionAgent)"
    by (simp add: bearer_token_def env_offline_def registry_defs)
  have a: "executionAgent_handleTask ?t1 = Inr (JObj [(''status'', JStr ''updated''), (''data'', JNum 7)])"
    using execution_agent_results [where task = ?t1 and payload = ?p1 and action = "JStr ''update''"
        and d = "JNum 7"] known
    by simp
  have b: "fst (agent_task env_offline ?req) =
      Responded 200 (JObj [(''agent'', JStr ''execution''),
                            (''result'', JObj [(''error'', JStr ''Unknown action'')])])"
    using execution_agent_results [where task = ?t2 and payload = ?p2 and action = "JStr ''archive''"
        and d = "JNum 7" and req = ?req and token = "''good''" and ev = env_offline
        and user = "JObj [(''id'', JStr ''u1'')]" and uid = "JStr ''u1''" and ty = "JStr ''execution''"]
      other route
    by simp
  from a b show ?thesis by simp
qed

end
